theory Spec2Isabelle
  imports Main "HOL-Library.Log_Nat"
begin

section \<open>JavaScript values that reach the manifest loader\<close>

text \<open>
  A number of the program is an IEEE-754 binary64 value. \<open>Finite m e\<close> stands for
  \<open>m * 2 ^ e\<close> (both zeros are \<open>Finite 0 e\<close>); NaN does not occur: \<open>JSON.parse\<close> never
  yields it, and neither does the product of a positive number and 1.5.
\<close>

datatype double = Finite int int | PosInf | NegInf

text \<open>
  What \<open>res.json()\<close> and \<open>JSON.parse\<close> return. An object is the list of its own
  properties in the order \<open>Object.keys\<close> enumerates them; \<open>undefined\<close> is \<open>None\<close> of
  \<open>json option\<close>.
\<close>

datatype json =
    JNull
  | JBool bool
  | JNum double
  | JStr string
  | JArr "json list"
  | JObj "(string \<times> json) list"

datatype error =
    FetchError          \<comment> \<open>\<open>fetch(url)\<close> rejected\<close>
  | InvalidJson         \<comment> \<open>\<open>res.json()\<close> rejected\<close>
  | TypeError           \<comment> \<open>a property of \<open>undefined\<close> or \<open>null\<close> was read\<close>
  | ReferenceError      \<comment> \<open>a variable that is not declared was read\<close>
  | Error string        \<comment> \<open>\<open>throw new Error(message)\<close>\<close>

text \<open>ToBoolean, as \<open>!x\<close> and \<open>if (x)\<close> apply it.\<close>

fun truthy :: "json \<Rightarrow> bool" where
  "truthy JNull = False"
| "truthy (JBool b) = b"
| "truthy (JNum (Finite m e)) = (m \<noteq> 0)"
| "truthy (JNum PosInf) = True"
| "truthy (JNum NegInf) = True"
| "truthy (JStr s) = (s \<noteq> [])"
| "truthy (JArr xs) = True"
| "truthy (JObj ps) = True"

definition truthy_opt :: "json option \<Rightarrow> bool" where
  "truthy_opt v = (case v of None \<Rightarrow> False | Some x \<Rightarrow> truthy x)"

text \<open>The name of an array index: the number in decimal.\<close>

definition digit_char :: "nat \<Rightarrow> char" where
  "digit_char d = char_of (48 + d)"

fun show_nat :: "nat \<Rightarrow> string" where
  "show_nat n = (if n < 10 then [digit_char n] else show_nat (n div 10) @ [digit_char (n mod 10)])"

declare show_nat.simps [simp del]

text \<open>
  The own enumerable string-keyed properties of a value, in enumeration order: the
  properties of an object, the indices of an array, the indices of a string; a number
  and a boolean have none.
\<close>

fun own_entries :: "json \<Rightarrow> (string \<times> json) list" where
  "own_entries (JObj ps) = ps"
| "own_entries (JArr xs) = zip (map show_nat [0..<length xs]) xs"
| "own_entries (JStr s) = zip (map show_nat [0..<length s]) (map (\<lambda>c. JStr [c]) s)"
| "own_entries v = []"

text \<open>
  \<open>v.k\<close> and \<open>v[k]\<close>: a TypeError on \<open>undefined\<close> and \<open>null\<close>, otherwise the own property
  or \<open>undefined\<close>. The loader reads \<open>entrypoints\<close>, \<open>assets\<close>, \<open>js\<close> and keys that
  \<open>Object.keys\<close> returned; none of them is inherited from a prototype, so inherited
  properties are left out.
\<close>

definition member :: "json option \<Rightarrow> string \<Rightarrow> error + json option" where
  "member v k =
     (case v of
        None \<Rightarrow> Inl TypeError
      | Some JNull \<Rightarrow> Inl TypeError
      | Some x \<Rightarrow> Inr (map_of (own_entries x) k))"

text \<open>\<open>Object.keys(v)\<close>: a TypeError on \<open>undefined\<close> and \<open>null\<close>.\<close>

definition Object_keys :: "json option \<Rightarrow> error + string list" where
  "Object_keys v =
     (case v of
        None \<Rightarrow> Inl TypeError
      | Some JNull \<Rightarrow> Inl TypeError
      | Some x \<Rightarrow> Inr (map fst (own_entries x)))"

text \<open>\<open>xs[0]\<close> of an array of strings: \<open>undefined\<close> when the array is empty.\<close>

definition first_key :: "string list \<Rightarrow> string option" where
  "first_key ks = (case ks of [] \<Rightarrow> None | k # _ \<Rightarrow> Some k)"

text \<open>ToPropertyKey of a string or \<open>undefined\<close>.\<close>

definition property_key :: "string option \<Rightarrow> string" where
  "property_key k = (case k of None \<Rightarrow> ''undefined'' | Some s \<Rightarrow> s)"

text \<open>Sequencing of evaluations that may throw.\<close>

definition and_then :: "error + 'a \<Rightarrow> ('a \<Rightarrow> error + 'b) \<Rightarrow> error + 'b" where
  "and_then r f = (case r of Inl e \<Rightarrow> Inl e | Inr x \<Rightarrow> f x)"

section \<open>The dev-server fetch\<close>

definition INVALID_MANIFEST_MAX_RETRIES :: nat where
  "INVALID_MANIFEST_MAX_RETRIES = 9999"

text \<open>
  The condition of lines 124-127:
  \<open>!manifest.entrypoints || !manifest.entrypoints[Object.keys(manifest.entrypoints)[0]].assets.js\<close>.
\<close>

definition first_js :: "json \<Rightarrow> error + json option" where
  "first_js manifest =
     and_then (member (Some manifest) ''entrypoints'') (\<lambda>entrypoints.
     and_then (Object_keys entrypoints) (\<lambda>keys.
     and_then (member entrypoints (property_key (first_key keys))) (\<lambda>entry.
     and_then (member entry ''assets'') (\<lambda>assets.
     member assets ''js''))))"

definition invalid_manifest :: "json \<Rightarrow> error + bool" where
  "invalid_manifest manifest =
     and_then (member (Some manifest) ''entrypoints'') (\<lambda>entrypoints.
       if \<not> truthy_opt entrypoints then Inr True
       else and_then (first_js manifest) (\<lambda>js. Inr (\<not> truthy_opt js)))"

text \<open>\<open>const firstEntrypoint = Object.keys(manifest.entrypoints)[0]\<close> (line 136).\<close>

definition firstEntrypoint :: "json \<Rightarrow> error + string option" where
  "firstEntrypoint manifest =
     and_then (member (Some manifest) ''entrypoints'') (\<lambda>entrypoints.
     and_then (Object_keys entrypoints) (\<lambda>keys. Inr (first_key keys)))"

text \<open>
  The condition of lines 137-140:
  \<open>!firstEntrypoint || !manifest.entrypoints[firstEntrypoint].assets.js\<close>; the empty
  string is falsy as \<open>undefined\<close> is.
\<close>

definition not_ready :: "json \<Rightarrow> error + bool" where
  "not_ready manifest =
     and_then (firstEntrypoint manifest) (\<lambda>first.
       case first of
         None \<Rightarrow> Inr True
       | Some name \<Rightarrow>
           if name = [] then Inr True
           else and_then (member (Some manifest) ''entrypoints'') (\<lambda>entrypoints.
                and_then (member entrypoints name) (\<lambda>entry.
                and_then (member entry ''assets'') (\<lambda>assets.
                and_then (member assets ''js'') (\<lambda>js. Inr (\<not> truthy_opt js))))))"

text \<open>
  What the program does to the outside, in the order it does it: the log entries, the
  requests sent, the delays waited for and the files read.
\<close>

datatype message =
    AttemptingToLoadManifest string
  | CouldNotLoadManifestFile
  | LoadingManifestsFromDevServer string
  | CouldNotLoadGeneratedManifest string
  | FailedToLoadEntrypointRetrying double

datatype level = Info | Warn | Err

datatype event =
    Logged level message
  | Fetched string
  | Waited double
  | FileRead string

text \<open>
  What one \<open>fetch(url)\<close> comes back with: a rejection, or a response with its \<open>ok\<close> flag
  and the value \<open>res.json()\<close> would parse from its body (\<open>None\<close> when the body is not
  JSON).
\<close>

datatype fetched = FetchRejected | Response bool "json option"

text \<open>
  The message of line 130, \<open>Invalid manifest while loading '${url}'\<close>, the URL between
  single quotes.
\<close>

definition invalid_manifest_message :: "string \<Rightarrow> string" where
  "invalid_manifest_message url =
     ''Invalid manifest while loading '' @ [CHR 0x27] @ url @ [CHR 0x27]"

text \<open>
  \<open>fetchManifest\<close> (lines 112-145), on the result of its fetch and the value of
  \<open>this.invalidManifestCounter\<close>: what it returns (\<open>Inr None\<close> is \<open>null\<close>) or throws,
  the new counter, and what it did.
\<close>

definition fetchManifest ::
  "string \<Rightarrow> fetched \<Rightarrow> nat \<Rightarrow> (error + json option) \<times> nat \<times> event list" where
  "fetchManifest url res counter =
     (let begun = [Logged Info (LoadingManifestsFromDevServer url), Fetched url] in
      case res of
        FetchRejected \<Rightarrow> (Inl FetchError, counter, begun)
      | Response ok body \<Rightarrow>
          if \<not> ok then
            (Inr None, counter, begun @ [Logged Err (CouldNotLoadGeneratedManifest url)])
          else
            (case body of
               None \<Rightarrow> (Inl InvalidJson, counter, begun)
             | Some manifest \<Rightarrow>
                 (case invalid_manifest manifest of
                    Inl e \<Rightarrow> (Inl e, counter, begun)
                  | Inr True \<Rightarrow>
                      if counter + 1 > INVALID_MANIFEST_MAX_RETRIES then
                        (Inl (Error (invalid_manifest_message url)), counter + 1, begun)
                      else (Inr None, counter + 1, begun)
                  | Inr False \<Rightarrow>
                      (case not_ready manifest of
                         Inl e \<Rightarrow> (Inl e, 0, begun)
                       | Inr True \<Rightarrow> (Inr None, 0, begun)
                       | Inr False \<Rightarrow> (Inr (Some manifest), 0, begun)))))"

text \<open>
  \<open>fetchManifest\<close> without the check of lines 136-143, to compare the two.
\<close>

definition fetchManifest_first_check_only ::
  "string \<Rightarrow> fetched \<Rightarrow> nat \<Rightarrow> (error + json option) \<times> nat \<times> event list" where
  "fetchManifest_first_check_only url res counter =
     (let begun = [Logged Info (LoadingManifestsFromDevServer url), Fetched url] in
      case res of
        FetchRejected \<Rightarrow> (Inl FetchError, counter, begun)
      | Response ok body \<Rightarrow>
          if \<not> ok then
            (Inr None, counter, begun @ [Logged Err (CouldNotLoadGeneratedManifest url)])
          else
            (case body of
               None \<Rightarrow> (Inl InvalidJson, counter, begun)
             | Some manifest \<Rightarrow>
                 (case invalid_manifest manifest of
                    Inl e \<Rightarrow> (Inl e, counter, begun)
                  | Inr True \<Rightarrow>
                      if counter + 1 > INVALID_MANIFEST_MAX_RETRIES then
                        (Inl (Error (invalid_manifest_message url)), counter + 1, begun)
                      else (Inr None, counter + 1, begun)
                  | Inr False \<Rightarrow> (Inr (Some manifest), 0, begun))))"

section \<open>The backoff\<close>

text \<open>\<open>m / 2 ^ k\<close> rounded to the nearest integer, a tie to the even one.\<close>

definition round_shift :: "int \<Rightarrow> nat \<Rightarrow> int" where
  "round_shift m k =
     (if k = 0 then m
      else let q = m div 2 ^ k; r = m mod 2 ^ k; half = 2 ^ (k - 1)
           in if half < r \<or> (r = half \<and> odd q) then q + 1 else q)"

text \<open>
  \<open>waitForMS * 1.5\<close> in binary64: the exact product \<open>3 * m * 2 ^ (e - 1)\<close>, rounded to
  53 significant bits (and to a multiple of \<open>2 ^ -1074\<close>), infinite from \<open>2 ^ 1024\<close> on.
\<close>

fun times_1_5 :: "double \<Rightarrow> double" where
  "times_1_5 (Finite m e) =
     (let p = 3 * m;
          k = nat (max (bitlen \<bar>p\<bar> - 53) (- 1074 - (e - 1)));
          m' = round_shift p k;
          e' = e - 1 + int k
      in if 1024 < bitlen \<bar>m'\<bar> + e' then (if 0 < m then PosInf else NegInf)
         else Finite m' e')"
| "times_1_5 PosInf = PosInf"
| "times_1_5 NegInf = NegInf"

text \<open>The rational a finite number stands for.\<close>

fun double_value :: "double \<Rightarrow> rat option" where
  "double_value (Finite m e) =
     Some (if 0 \<le> e then of_int m * 2 ^ nat e else of_int m / 2 ^ nat (- e))"
| "double_value PosInf = None"
| "double_value NegInf = None"

text \<open>What a promise has come to; \<open>Pending\<close> when the responses given have run out.\<close>

datatype 'a outcome = Resolved 'a | Rejected error | Pending

text \<open>
  \<open>fetchManifestAndRetry\<close> (lines 148-158) against the results of the successive
  fetches.
\<close>

fun fetchManifestAndRetry ::
  "string \<Rightarrow> double \<Rightarrow> fetched list \<Rightarrow> nat \<Rightarrow> json outcome \<times> nat \<times> event list" where
  "fetchManifestAndRetry url waitForMS [] counter = (Pending, counter, [])"
| "fetchManifestAndRetry url waitForMS (res # rest) counter =
     (case fetchManifest url res counter of
        (Inl e, counter', evs) \<Rightarrow> (Rejected e, counter', evs)
      | (Inr r, counter', evs) \<Rightarrow>
          if truthy_opt r then (Resolved (the r), counter', evs)
          else
            (case fetchManifestAndRetry url (times_1_5 waitForMS) rest counter' of
               (out, counter'', evs') \<Rightarrow>
                 (out, counter'',
                  evs @ [Logged Warn (FailedToLoadEntrypointRetrying waitForMS),
                         Waited waitForMS] @ evs')))"

section \<open>The entrypoints index\<close>

text \<open>\<open>interface Asset\<close> (lines 22-25), and the JSON value of one.\<close>

record Asset =
  src :: string
  integrity :: string

definition Asset_json :: "Asset \<Rightarrow> json" where
  "Asset_json a = JObj [(''src'', JStr (src a)), (''integrity'', JStr (integrity a))]"

text \<open>
  The module \<open>./entrypoints\<close> (the types \<open>Entrypoint\<close> and \<open>RawEntrypoint\<close>, the class
  \<open>Entrypoints\<close>) is not among the sources at hand; the loader uses the constructor of
  the class, its \<open>get\<close>, and the field \<open>js\<close> of what \<open>get\<close> returns. The spec describes
  manifests of the documented shape only; on other values the definitions below take a
  group that is not a list to be empty.
\<close>

text \<open>
  Modelled from the spec: the type \<open>Entrypoint\<close> of \<open>./entrypoints\<close>, "a normalized view
  of one raw entrypoint descriptor: ordered sequence of JS assets and ordered sequence
  of CSS assets". The assets are kept as the values the manifest has.
\<close>

record Entrypoint =
  js :: "json list"
  css :: "json list"

text \<open>
  Modelled from the spec: the state of an \<open>Entrypoints\<close> object of \<open>./entrypoints\<close>, an
  index of the entrypoints by name.
\<close>

type_synonym Entrypoints = "(string \<times> Entrypoint) list"

text \<open>
  Modelled from the spec: one asset group of a raw entrypoint
  \<open>{assets: {js: [...], css: [...], ...}}\<close>, which \<open>./entrypoints\<close> reads; the list as
  it is, in its order.
\<close>

definition asset_group :: "json \<Rightarrow> string \<Rightarrow> json list" where
  "asset_group raw g =
     (case map_of (own_entries raw) ''assets'' of
        None \<Rightarrow> []
      | Some assets \<Rightarrow>
          (case map_of (own_entries assets) g of Some (JArr xs) \<Rightarrow> xs | _ \<Rightarrow> []))"

text \<open>
  Modelled from the spec: the grouping that the constructor of \<open>Entrypoints\<close> in
  \<open>./entrypoints\<close> does, of a raw entrypoint into the shape \<open>{js: [...], css: [...]}\<close>.
\<close>

definition normalise :: "json \<Rightarrow> Entrypoint" where
  "normalise raw = \<lparr>js = asset_group raw ''js'', css = asset_group raw ''css''\<rparr>"

text \<open>
  Modelled from the spec: the constructor of \<open>Entrypoints\<close> in \<open>./entrypoints\<close>, which
  builds the index once from the \<open>entrypoints\<close> of a manifest.
\<close>

definition new_Entrypoints :: "json \<Rightarrow> Entrypoints" where
  "new_Entrypoints m =
     (case map_of (own_entries m) ''entrypoints'' of
        None \<Rightarrow> []
      | Some es \<Rightarrow> map (\<lambda>(name, raw). (name, normalise raw)) (own_entries es))"

text \<open>
  Modelled from the spec: \<open>Entrypoints.get\<close> of \<open>./entrypoints\<close>, which returns the
  entrypoint of a name and \<open>null\<close> for a name that is not in the manifest.
\<close>

definition Entrypoints_get :: "Entrypoints \<Rightarrow> string \<Rightarrow> Entrypoint option" where
  "Entrypoints_get index name = map_of index name"

section \<open>The loader\<close>

record ManifestLoaderOptions =
  fromWebpackDevServerURL :: "string option"
  injectWebpackDevServerBundle :: bool

record ManifestLoader =
  manifestFilename :: string
  manifest :: "json option"
  entrypoints :: "Entrypoints option"
  options :: ManifestLoaderOptions
  invalidManifestCounter :: nat

text \<open>
  \<open>if (options.fromWebpackDevServerURL)\<close>: the URL is there and is not the empty
  string.
\<close>

definition dev_server :: "ManifestLoaderOptions \<Rightarrow> bool" where
  "dev_server opts =
     (case fromWebpackDevServerURL opts of None \<Rightarrow> False | Some u \<Rightarrow> u \<noteq> [])"

text \<open>
  The path \<open>loadManifestFromFile\<close> joins, from the directory of the module.
\<close>

definition manifestFilepath :: "string \<Rightarrow> string" where
  "manifestFilepath filename = ''../../../../../../client/dist/static/'' @ filename"

text \<open>
  \<open>loadManifestFromFile\<close> (lines 48-80). The file system gives, for a path, the value
  \<open>JSON.parse\<close> makes of the file, and nothing when reading or parsing throws.
\<close>

definition loadManifestFromFile ::
  "(string \<rightharpoonup> json) \<Rightarrow> string \<Rightarrow> json option \<times> event list" where
  "loadManifestFromFile fs filename =
     (let path = manifestFilepath filename;
          begun = [Logged Info (AttemptingToLoadManifest path), FileRead path]
      in case fs path of
           Some parsed \<Rightarrow> (Some parsed, begun)
         | None \<Rightarrow> (None, begun @ [Logged Err CouldNotLoadManifestFile]))"

text \<open>
  The constructor (lines 88-107). \<open>new Entrypoints(...)\<close> is an object, so the test of
  line 101 never fails.
\<close>

definition new_ManifestLoader ::
  "(string \<rightharpoonup> json) \<Rightarrow> string \<Rightarrow> ManifestLoaderOptions \<Rightarrow>
     (error + ManifestLoader) \<times> event list" where
  "new_ManifestLoader fs filename opts =
     (let this = \<lparr>manifestFilename = filename, manifest = None, entrypoints = None,
                  options = opts, invalidManifestCounter = 0\<rparr>
      in if \<not> dev_server opts then
           (case loadManifestFromFile fs filename of
              (loaded, evs) \<Rightarrow>
                if \<not> truthy_opt loaded then
                  (Inl (Error (''Failed to load manifest file '' @ filename)), evs)
                else
                  (case Some (new_Entrypoints (the loaded)) of
                     None \<Rightarrow> (Inl (Error (''Failed to parse manifest file '' @ filename)), evs)
                   | Some index \<Rightarrow>
                       (Inr (this\<lparr>manifest := loaded, entrypoints := Some index\<rparr>), evs)))
         else (Inr this, []))"

text \<open>
  \<open>load\<close> (lines 109-166) against the results of the fetches to come. Line 165 builds
  its message from a variable \<open>name\<close> that \<open>load\<close> does not declare: evaluating it is a
  ReferenceError.
\<close>

definition load ::
  "ManifestLoader \<Rightarrow> fetched list \<Rightarrow> json outcome \<times> ManifestLoader \<times> event list" where
  "load this responses =
     (if dev_server (options this) then
        (let url = the (fromWebpackDevServerURL (options this)) @ ''/'' @ manifestFilename this
         in case fetchManifestAndRetry url (Finite 1000 0) responses (invalidManifestCounter this) of
              (out, counter, evs) \<Rightarrow> (out, this\<lparr>invalidManifestCounter := counter\<rparr>, evs))
      else if truthy_opt (manifest this) then (Resolved (the (manifest this)), this, [])
      else (Rejected ReferenceError, this, []))"

text \<open>
  What \<open>createEntrypointLoader\<close> returns: the closure of the dev-server branch, which
  holds the name, or the one of the file branch, which holds the entrypoint looked up.
\<close>

datatype EntrypointLoader = FromDevServer string | FromCache "Entrypoint option"

definition webpack_dev_server_bundle :: Asset where
  "webpack_dev_server_bundle = \<lparr>src = ''webpack-dev-server.js'', integrity = []\<rparr>"

text \<open>\<open>createEntrypointLoader\<close> (lines 168-191).\<close>

definition createEntrypointLoader :: "ManifestLoader \<Rightarrow> string \<Rightarrow> error + EntrypointLoader" where
  "createEntrypointLoader this name =
     (if dev_server (options this) then Inr (FromDevServer name)
      else case entrypoints this of
             Some index \<Rightarrow> Inr (FromCache (Entrypoints_get index name))
           | None \<Rightarrow> Inl (Error (''Failed to load entrypoint '' @ name)))"

text \<open>Calling the accessor that \<open>createEntrypointLoader\<close> returned.\<close>

definition call_EntrypointLoader ::
  "EntrypointLoader \<Rightarrow> ManifestLoader \<Rightarrow> fetched list \<Rightarrow>
     Entrypoint option outcome \<times> ManifestLoader \<times> event list" where
  "call_EntrypointLoader f this responses =
     (case f of
        FromCache entrypoint \<Rightarrow> (Resolved entrypoint, this, [])
      | FromDevServer name \<Rightarrow>
          (case load this responses of
             (Resolved m, this', evs) \<Rightarrow>
               (case Entrypoints_get (new_Entrypoints m) name of
                  None \<Rightarrow> (Resolved None, this', evs)
                | Some entrypoint \<Rightarrow>
                    if injectWebpackDevServerBundle (options this) then
                      (Resolved (Some (entrypoint\<lparr>js := js entrypoint @ [Asset_json webpack_dev_server_bundle]\<rparr>)),
                       this', evs)
                    else (Resolved (Some entrypoint), this', evs))
           | (Rejected e, this', evs) \<Rightarrow> (Rejected e, this', evs)
           | (Pending, this', evs) \<Rightarrow> (Pending, this', evs)))"

section \<open>Reading a trace\<close>

fun waits :: "event list \<Rightarrow> double list" where
  "waits [] = []"
| "waits (Waited w # evs) = w # waits evs"
| "waits (ev # evs) = waits evs"

fun fetches :: "event list \<Rightarrow> nat" where
  "fetches [] = 0"
| "fetches (Fetched url # evs) = Suc (fetches evs)"
| "fetches (ev # evs) = fetches evs"

text \<open>
  The counter after a sequence of fetches, whichever \<open>load\<close> issued them: the field
  belongs to the loader and outlives a call.
\<close>

fun counter_after :: "string \<Rightarrow> fetched list \<Rightarrow> nat \<Rightarrow> nat" where
  "counter_after url [] counter = counter"
| "counter_after url (res # rest) counter =
     counter_after url rest (fst (snd (fetchManifest url res counter)))"

text \<open>
  A response whose manifest the check of lines 124-127 rejects, and one whose manifest
  it lets through.
\<close>

fun rejected_by_check :: "fetched \<Rightarrow> bool" where
  "rejected_by_check (Response True (Some m)) = (invalid_manifest m = Inr True)"
| "rejected_by_check res = False"

fun passed_check :: "fetched \<Rightarrow> bool" where
  "passed_check (Response True (Some m)) = (invalid_manifest m = Inr False)"
| "passed_check res = False"

section \<open>Sample inputs\<close>

definition dev_loader :: ManifestLoader where
  "dev_loader =
     \<lparr>manifestFilename = ''asset-manifest.json'', manifest = None, entrypoints = None,
      options = \<lparr>fromWebpackDevServerURL = Some ''http://127.0.0.1:8080'',
                 injectWebpackDevServerBundle = True\<rparr>,
      invalidManifestCounter = 0\<rparr>"

definition file_options :: ManifestLoaderOptions where
  "file_options = \<lparr>fromWebpackDevServerURL = None, injectWebpackDevServerBundle = True\<rparr>"

definition main_entry :: "json list \<Rightarrow> json" where
  "main_entry scripts = JObj [(''assets'', JObj [(''js'', JArr scripts), (''css'', JArr [])])]"

definition main_js :: json where
  "main_js = Asset_json \<lparr>src = ''main.js'', integrity = ''sha256-0''\<rparr>"

definition ready_manifest :: json where
  "ready_manifest = JObj [(''entrypoints'', JObj [(''main'', main_entry [main_js])])]"

definition no_entrypoints_manifest :: json where
  "no_entrypoints_manifest = JObj [(''main.js'', main_js)]"

definition empty_entrypoints_manifest :: json where
  "empty_entrypoints_manifest = JObj [(''entrypoints'', JObj [])]"

definition no_js_manifest :: json where
  "no_js_manifest = JObj [(''entrypoints'', JObj [(''main'', JObj [(''assets'', JObj [])])])]"

definition no_assets_manifest :: json where
  "no_assets_manifest = JObj [(''entrypoints'', JObj [(''main'', JObj [])])]"

definition empty_js_manifest :: json where
  "empty_js_manifest = JObj [(''entrypoints'', JObj [(''main'', main_entry [])])]"

definition unnamed_entry_manifest :: json where
  "unnamed_entry_manifest = JObj [(''entrypoints'', JObj [([], main_entry [main_js])])]"

definition sample_fs :: "string \<rightharpoonup> json" where
  "sample_fs = [manifestFilepath ''asset-manifest.json'' \<mapsto> ready_manifest]"

definition file_loader :: ManifestLoader where
  "file_loader =
     \<lparr>manifestFilename = ''asset-manifest.json'', manifest = Some ready_manifest,
      entrypoints = Some [(''main'', \<lparr>js = [main_js], css = []\<rparr>)],
      options = file_options, invalidManifestCounter = 0\<rparr>"

text \<open>The names under \<open>entrypoints\<close> of a manifest.\<close>

definition entrypoint_names :: "json \<Rightarrow> string list" where
  "entrypoint_names m =
     (case map_of (own_entries m) ''entrypoints'' of
        None \<Rightarrow> []
      | Some es \<Rightarrow> map fst (own_entries es))"

section \<open>Facts about one fetch and one round of the retry\<close>

lemma fetchManifest_not_ok:
  "fetchManifest url (Response False body) counter =
     (Inr None, counter,
      [Logged Info (LoadingManifestsFromDevServer url), Fetched url,
       Logged Err (CouldNotLoadGeneratedManifest url)])"
  by (simp add: fetchManifest_def)

lemma fetchManifest_invalid:
  assumes "invalid_manifest m = Inr True"
  shows "fetchManifest url (Response True (Some m)) counter =
     (if INVALID_MANIFEST_MAX_RETRIES < counter + 1
      then Inl (Error (invalid_manifest_message url)) else Inr None,
      counter + 1,
      [Logged Info (LoadingManifestsFromDevServer url), Fetched url])"
  using assms by (simp add: fetchManifest_def)

lemma fetchManifest_passed:
  assumes "invalid_manifest m = Inr False"
  shows "fst (snd (fetchManifest url (Response True (Some m)) counter)) = 0"
  using assms by (simp add: fetchManifest_def Let_def split: sum.splits bool.splits)

lemma fetchManifestAndRetry_null:
  assumes "fetchManifest url res counter = (Inr None, counter', evs)"
  shows "fetchManifestAndRetry url waitForMS (res # rest) counter =
     (case fetchManifestAndRetry url (times_1_5 waitForMS) rest counter' of
        (out, counter'', evs') \<Rightarrow>
          (out, counter'',
           evs @ [Logged Warn (FailedToLoadEntrypointRetrying waitForMS), Waited waitForMS] @ evs'))"
  using assms by (simp add: truthy_opt_def)

lemma fetchManifestAndRetry_throws:
  assumes "fetchManifest url res counter = (Inl e, counter', evs)"
  shows "fetchManifestAndRetry url waitForMS (res # rest) counter = (Rejected e, counter', evs)"
  using assms by simp

text \<open>A falsy value has no property, so it never passes the check of lines 124-127.\<close>

lemma own_entries_falsy: "\<not> truthy v \<Longrightarrow> own_entries v = []"
  by (induction v rule: truthy.induct) simp_all

lemma invalid_manifest_falsy: "\<not> truthy m \<Longrightarrow> invalid_manifest m \<noteq> Inr False"
  by (cases m)
     (auto simp: invalid_manifest_def member_def and_then_def truthy_opt_def
           dest: own_entries_falsy)

lemma fetchManifest_returns_truthy:
  assumes "fetchManifest url res counter = (Inr (Some m), counter', evs)"
  shows "truthy m"
proof (rule ccontr)
  assume "\<not> truthy m"
  then have "invalid_manifest m \<noteq> Inr False" by (rule invalid_manifest_falsy)
  with assms show False
    by (auto simp: fetchManifest_def Let_def
             split: fetched.splits if_splits option.splits sum.splits bool.splits)
qed

lemma fetchManifestAndRetry_manifest:
  assumes "fetchManifest url res counter = (Inr (Some m), counter', evs)"
  shows "fetchManifestAndRetry url waitForMS (res # rest) counter = (Resolved m, counter', evs)"
  using assms fetchManifest_returns_truthy [OF assms] by (simp add: truthy_opt_def)

lemma member_Some:
  "m \<noteq> JNull \<Longrightarrow> member (Some m) k = Inr (map_of (own_entries m) k)"
  by (cases m) (simp_all add: member_def)

lemma absent_entrypoints_invalid:
  assumes "map_of (own_entries m) ''entrypoints'' = None" "m \<noteq> JNull"
  shows "invalid_manifest m = Inr True"
  using assms by (simp add: invalid_manifest_def member_Some and_then_def truthy_opt_def)

lemma retry_not_ok_replicate:
  "fst (fetchManifestAndRetry url waitForMS (replicate n (Response False body)) counter) = Pending
   \<and> fst (snd (fetchManifestAndRetry url waitForMS (replicate n (Response False body)) counter))
       = counter"
proof (induction n arbitrary: waitForMS)
  case 0
  show ?case by simp
next
  case (Suc n)
  show ?case
    using Suc.IH [of "times_1_5 waitForMS"]
    by (auto simp add: fetchManifestAndRetry_null [OF fetchManifest_not_ok]
             simp del: fetchManifestAndRetry.simps split: prod.splits)
qed

section \<open>Responses that are not ok\<close>

text \<open>
  C5. In dev-server mode a response that is not ok is a soft failure: \<open>fetchManifest\<close>
  logs an error and returns \<open>null\<close> with the counter as it was; \<open>fetchManifestAndRetry\<close>
  logs the retry, waits and goes on with the next fetch, so its outcome is the one of
  the fetches that follow; and a \<open>load\<close> that gets such responses only stays pending,
  never rejected, with the counter of the loader unchanged.
\<close>

theorem non_ok_response_is_soft_failure:
  "fetchManifest url (Response False body) counter =
     (Inr None, counter,
      [Logged Info (LoadingManifestsFromDevServer url), Fetched url,
       Logged Err (CouldNotLoadGeneratedManifest url)])
   \<and> fetchManifestAndRetry url waitForMS (Response False body # rest) counter =
     (case fetchManifestAndRetry url (times_1_5 waitForMS) rest counter of
        (out, counter', evs) \<Rightarrow>
          (out, counter',
           [Logged Info (LoadingManifestsFromDevServer url), Fetched url,
            Logged Err (CouldNotLoadGeneratedManifest url),
            Logged Warn (FailedToLoadEntrypointRetrying waitForMS), Waited waitForMS] @ evs))
   \<and> (dev_server (options this) \<longrightarrow>
        fst (load this (replicate n (Response False body))) = Pending
        \<and> invalidManifestCounter (fst (snd (load this (replicate n (Response False body)))))
            = invalidManifestCounter this)"
proof (intro conjI impI)
  show "fetchManifest url (Response False body) counter =
     (Inr None, counter,
      [Logged Info (LoadingManifestsFromDevServer url), Fetched url,
       Logged Err (CouldNotLoadGeneratedManifest url)])"
    by (rule fetchManifest_not_ok)
next
  show "fetchManifestAndRetry url waitForMS (Response False body # rest) counter =
     (case fetchManifestAndRetry url (times_1_5 waitForMS) rest counter of
        (out, counter', evs) \<Rightarrow>
          (out, counter',
           [Logged Info (LoadingManifestsFromDevServer url), Fetched url,
            Logged Err (CouldNotLoadGeneratedManifest url),
            Logged Warn (FailedToLoadEntrypointRetrying waitForMS), Waited waitForMS] @ evs))"
    by (simp add: fetchManifestAndRetry_null [OF fetchManifest_not_ok]
             del: fetchManifestAndRetry.simps split: prod.splits)
next
  assume dev: "dev_server (options this)"
  let ?u = "the (fromWebpackDevServerURL (options this)) @ ''/'' @ manifestFilename this"
  obtain evs where r: "fetchManifestAndRetry ?u (Finite 1000 0) (replicate n (Response False body))
      (invalidManifestCounter this) = (Pending, invalidManifestCounter this, evs)"
    using retry_not_ok_replicate [of ?u "Finite 1000 0" n body "invalidManifestCounter this"]
    by (metis prod.collapse)
  show "fst (load this (replicate n (Response False body))) = Pending"
    using dev r by (simp add: load_def)
  show "invalidManifestCounter (fst (snd (load this (replicate n (Response False body)))))
            = invalidManifestCounter this"
    using dev r by (simp add: load_def)
qed

theorem non_ok_response_is_soft_failure_witness:
  "dev_server (options dev_loader)
   \<and> fst (load dev_loader (replicate 3 (Response False None))) = Pending
   \<and> invalidManifestCounter (fst (snd (load dev_loader (replicate 3 (Response False None))))) = 0"
  using non_ok_response_is_soft_failure [of "''u''" None 0 "Finite 1000 0" "[]" dev_loader 3]
  by (simp add: dev_loader_def dev_server_def)

section \<open>A manifest with no entrypoint\<close>

text \<open>
  C1. A response whose body has an empty \<open>entrypoints\<close> mapping is to count as an
  invalid manifest and to be retried without an error. The code does so when
  \<open>entrypoints\<close> is absent (lemma \<open>absent_entrypoints_invalid\<close>), but on the body
  \<open>{"entrypoints": {}}\<close> the condition of lines 124-127 reads \<open>assets\<close> of
  \<open>undefined\<close>: \<open>fetchManifest\<close> throws a TypeError, the counter stays as it was, and
  the retry loop rejects with it instead of waiting.
\<close>

theorem empty_entrypoints_throws:
  "fetchManifest url (Response True (Some empty_entrypoints_manifest)) counter =
     (Inl TypeError, counter, [Logged Info (LoadingManifestsFromDevServer url), Fetched url])
   \<and> fetchManifestAndRetry url waitForMS
        (Response True (Some empty_entrypoints_manifest) # rest) counter =
     (Rejected TypeError, counter, [Logged Info (LoadingManifestsFromDevServer url), Fetched url])
   \<and> fst (load dev_loader [Response True (Some empty_entrypoints_manifest)]) = Rejected TypeError"
  by (simp add: fetchManifest_def invalid_manifest_def first_js_def member_def Object_keys_def
        first_key_def property_key_def and_then_def truthy_opt_def empty_entrypoints_manifest_def
        load_def dev_loader_def dev_server_def Let_def)

section \<open>The two checks of a fetched manifest\<close>

lemmas check_defs = invalid_manifest_def first_js_def firstEntrypoint_def not_ready_def
  member_def Object_keys_def first_key_def property_key_def and_then_def truthy_opt_def

lemma sample_checks:
  "invalid_manifest ready_manifest = Inr False"
  "not_ready ready_manifest = Inr False"
  "invalid_manifest no_entrypoints_manifest = Inr True"
  "invalid_manifest no_js_manifest = Inr True"
  "invalid_manifest empty_js_manifest = Inr False"
  "not_ready empty_js_manifest = Inr False"
  "invalid_manifest unnamed_entry_manifest = Inr False"
  "not_ready unnamed_entry_manifest = Inr True"
  by (simp_all add: check_defs ready_manifest_def no_entrypoints_manifest_def no_js_manifest_def
        empty_js_manifest_def unnamed_entry_manifest_def main_entry_def main_js_def Asset_json_def)

text \<open>
  C10, as stated, fails: the manifest \<open>{"entrypoints": {"": {"assets": {"js": [...]}}}}\<close>
  passes the check of lines 124-127, and then \<open>!firstEntrypoint\<close> holds of the empty
  name, so \<open>fetchManifest\<close> resets the counter and returns \<open>null\<close>, where the first
  check alone would return the manifest.
\<close>

theorem second_check_is_reached:
  "invalid_manifest unnamed_entry_manifest = Inr False
   \<and> not_ready unnamed_entry_manifest = Inr True
   \<and> fetchManifest ''u'' (Response True (Some unnamed_entry_manifest)) 5 =
       (Inr None, 0, [Logged Info (LoadingManifestsFromDevServer ''u''), Fetched ''u''])
   \<and> fetchManifest_first_check_only ''u'' (Response True (Some unnamed_entry_manifest)) 5 =
       (Inr (Some unnamed_entry_manifest), 0,
        [Logged Info (LoadingManifestsFromDevServer ''u''), Fetched ''u''])"
  by (simp add: fetchManifest_def fetchManifest_first_check_only_def sample_checks)

lemma member_None: "member None k = Inl TypeError"
  by (simp add: member_def)

lemma passed_named_is_ready:
  assumes "invalid_manifest m = Inr False" and "firstEntrypoint m \<noteq> Inr (Some [])"
  shows "not_ready m = Inr False"
proof -
  from assms(1) have nn: "m \<noteq> JNull"
    by (auto simp: invalid_manifest_def member_def and_then_def)
  show ?thesis
  proof (cases "map_of (own_entries m) ''entrypoints''")
    case None
    with nn assms(1) show ?thesis
      by (simp add: invalid_manifest_def member_Some and_then_def truthy_opt_def)
  next
    case (Some es)
    with nn assms(1) have t: "truthy es"
      by (simp add: invalid_manifest_def member_Some and_then_def truthy_opt_def split: if_splits)
    then have es: "es \<noteq> JNull" by auto
    show ?thesis
    proof (cases "own_entries es")
      case Nil
      with nn Some es t assms(1) show ?thesis
        by (simp add: invalid_manifest_def first_js_def member_Some Object_keys_def first_key_def
              property_key_def and_then_def truthy_opt_def member_None split: json.splits)
    next
      case (Cons p ps)
      with nn Some es t assms show ?thesis
        by (cases p)
           (auto simp: invalid_manifest_def first_js_def firstEntrypoint_def not_ready_def
              member_Some member_None Object_keys_def first_key_def property_key_def
              and_then_def truthy_opt_def split: sum.splits if_splits json.splits option.splits)
    qed
  qed
qed

text \<open>
  C10, amended. For a manifest whose first entrypoint does not have the empty string as
  its name, the condition of lines 137-140 is false whenever the one of lines 124-127
  is, so \<open>fetchManifest\<close> with both checks is \<open>fetchManifest\<close> with the first alone and
  the retry that leaves the counter alone is not taken.
\<close>

theorem second_check_redundant_for_named_entry:
  assumes "firstEntrypoint m \<noteq> Inr (Some [])"
  shows "(invalid_manifest m = Inr False \<longrightarrow> not_ready m = Inr False)
     \<and> fetchManifest url (Response True (Some m)) counter =
       fetchManifest_first_check_only url (Response True (Some m)) counter"
proof (intro conjI impI)
  assume "invalid_manifest m = Inr False"
  then show "not_ready m = Inr False" using assms by (rule passed_named_is_ready)
next
  show "fetchManifest url (Response True (Some m)) counter =
       fetchManifest_first_check_only url (Response True (Some m)) counter"
    using passed_named_is_ready [OF _ assms]
    by (auto simp: fetchManifest_def fetchManifest_first_check_only_def Let_def
             split: sum.splits bool.splits)
qed

theorem second_check_redundant_for_named_entry_witness:
  "firstEntrypoint ready_manifest \<noteq> Inr (Some [])
   \<and> invalid_manifest ready_manifest = Inr False
   \<and> not_ready ready_manifest = Inr False
   \<and> fetchManifest ''u'' (Response True (Some ready_manifest)) 3 =
       fetchManifest_first_check_only ''u'' (Response True (Some ready_manifest)) 3"
proof -
  have h: "firstEntrypoint ready_manifest \<noteq> Inr (Some [])"
    by (simp add: check_defs ready_manifest_def)
  show ?thesis
    using h second_check_redundant_for_named_entry [OF h, of "''u''" 3]
    by (simp add: sample_checks)
qed

section \<open>A first entrypoint without scripts\<close>

text \<open>
  C2, as stated, fails on the manifest
  \<open>{"entrypoints": {"main": {"assets": {"js": [], "css": []}}}}\<close>, whose first
  entrypoint has a \<open>js\<close> group with no element: \<open>!assets.js\<close> is false of the empty
  array, \<open>fetchManifest\<close> returns this manifest, and \<open>load\<close> resolves with it on the
  first fetch.
\<close>

theorem empty_js_list_is_accepted:
  "fetchManifest ''u'' (Response True (Some empty_js_manifest)) 0 =
     (Inr (Some empty_js_manifest), 0,
      [Logged Info (LoadingManifestsFromDevServer ''u''), Fetched ''u''])
   \<and> fst (load dev_loader [Response True (Some empty_js_manifest)]) = Resolved empty_js_manifest"
proof -
  have f: "\<And>url c. fetchManifest url (Response True (Some empty_js_manifest)) c =
     (Inr (Some empty_js_manifest), 0,
      [Logged Info (LoadingManifestsFromDevServer url), Fetched url])"
    by (simp add: fetchManifest_def sample_checks)
  show ?thesis
    by (simp add: f fetchManifestAndRetry_manifest [OF f] load_def dev_loader_def dev_server_def
          Let_def del: fetchManifestAndRetry.simps)
qed

lemma Object_keys_Some:
  "v \<noteq> JNull \<Longrightarrow> Object_keys (Some v) = Inr (map fst (own_entries v))"
  by (cases v) (simp_all add: Object_keys_def)

lemma fetchManifest_ready:
  "fetchManifest url (Response True (Some ready_manifest)) counter =
     (Inr (Some ready_manifest), 0,
      [Logged Info (LoadingManifestsFromDevServer url), Fetched url])"
  by (simp add: fetchManifest_def sample_checks)

lemma missing_js_invalid:
  assumes "map_of (own_entries m) ''entrypoints'' = Some es"
    and "own_entries es = (name, entry) # others"
    and "map_of (own_entries entry) ''assets'' = Some assets"
    and "assets \<noteq> JNull"
    and "\<not> truthy_opt (map_of (own_entries assets) ''js'')"
  shows "invalid_manifest m = Inr True"
proof -
  from assms(1) have m: "m \<noteq> JNull" by auto
  from assms(2) have es: "es \<noteq> JNull" by auto
  from assms(3) have entry: "entry \<noteq> JNull" by auto
  have "first_js m = Inr (map_of (own_entries assets) ''js'')"
    using assms m es entry
    by (simp add: first_js_def member_Some Object_keys_Some first_key_def property_key_def
          and_then_def)
  then show ?thesis
    using assms m by (simp add: invalid_manifest_def member_Some and_then_def)
qed

text \<open>
  C2, amended. When the first entrypoint, in the order of the mapping, has an \<open>assets\<close>
  object whose \<open>js\<close> is missing (absent, or a falsy value such as \<open>null\<close>), the manifest
  is rejected as not ready although the JSON is well-formed: the counter goes up by one
  and, as long as it does not exceed the ceiling, \<open>fetchManifest\<close> returns \<open>null\<close> and
  the fetch is made again after the wait.
\<close>

theorem missing_js_is_retried:
  assumes "map_of (own_entries m) ''entrypoints'' = Some es"
    and "own_entries es = (name, entry) # others"
    and "map_of (own_entries entry) ''assets'' = Some assets"
    and "assets \<noteq> JNull"
    and "\<not> truthy_opt (map_of (own_entries assets) ''js'')"
  shows "fetchManifest url (Response True (Some m)) counter =
       (if INVALID_MANIFEST_MAX_RETRIES < counter + 1
        then Inl (Error (invalid_manifest_message url)) else Inr None,
        counter + 1,
        [Logged Info (LoadingManifestsFromDevServer url), Fetched url])
     \<and> (counter + 1 \<le> INVALID_MANIFEST_MAX_RETRIES \<longrightarrow>
         fetchManifestAndRetry url waitForMS (Response True (Some m) # rest) counter =
           (case fetchManifestAndRetry url (times_1_5 waitForMS) rest (counter + 1) of
              (out, counter', evs) \<Rightarrow>
                (out, counter',
                 [Logged Info (LoadingManifestsFromDevServer url), Fetched url,
                  Logged Warn (FailedToLoadEntrypointRetrying waitForMS), Waited waitForMS]
                 @ evs)))"
proof -
  have inv: "invalid_manifest m = Inr True" using assms by (rule missing_js_invalid)
  note f = fetchManifest_invalid [OF inv, of url counter]
  show ?thesis
  proof (intro conjI impI)
    show "fetchManifest url (Response True (Some m)) counter =
       (if INVALID_MANIFEST_MAX_RETRIES < counter + 1
        then Inl (Error (invalid_manifest_message url)) else Inr None,
        counter + 1,
        [Logged Info (LoadingManifestsFromDevServer url), Fetched url])"
      by (rule f)
  next
    assume le: "counter + 1 \<le> INVALID_MANIFEST_MAX_RETRIES"
    with f have "fetchManifest url (Response True (Some m)) counter =
       (Inr None, counter + 1, [Logged Info (LoadingManifestsFromDevServer url), Fetched url])"
      by simp
    from fetchManifestAndRetry_null [OF this]
    show "fetchManifestAndRetry url waitForMS (Response True (Some m) # rest) counter =
           (case fetchManifestAndRetry url (times_1_5 waitForMS) rest (counter + 1) of
              (out, counter', evs) \<Rightarrow>
                (out, counter',
                 [Logged Info (LoadingManifestsFromDevServer url), Fetched url,
                  Logged Warn (FailedToLoadEntrypointRetrying waitForMS), Waited waitForMS]
                 @ evs))"
      by (simp split: prod.splits)
  qed
qed

theorem missing_js_is_retried_witness:
  "fetchManifest ''u'' (Response True (Some no_js_manifest)) 0 =
     (Inr None, 1, [Logged Info (LoadingManifestsFromDevServer ''u''), Fetched ''u''])
   \<and> fetchManifestAndRetry ''u'' (Finite 1000 0)
        [Response True (Some no_js_manifest), Response True (Some ready_manifest)] 0 =
     (Resolved ready_manifest, 0,
      [Logged Info (LoadingManifestsFromDevServer ''u''), Fetched ''u'',
       Logged Warn (FailedToLoadEntrypointRetrying (Finite 1000 0)), Waited (Finite 1000 0),
       Logged Info (LoadingManifestsFromDevServer ''u''), Fetched ''u''])"
proof -
  have h1: "map_of (own_entries no_js_manifest) ''entrypoints''
              = Some (JObj [(''main'', JObj [(''assets'', JObj [])])])"
    by (simp add: no_js_manifest_def)
  have h2: "own_entries (JObj [(''main'', JObj [(''assets'', JObj [])])])
              = (''main'', JObj [(''assets'', JObj [])]) # []"
    by simp
  have h3: "map_of (own_entries (JObj [(''assets'', JObj [])])) ''assets'' = Some (JObj [])"
    by simp
  have h4: "JObj [] \<noteq> JNull" by simp
  have h5: "\<not> truthy_opt (map_of (own_entries (JObj [])) ''js'')"
    by (simp add: truthy_opt_def)
  show ?thesis
    using missing_js_is_retried [OF h1 h2 h3 h4 h5, of "''u''" 0 "Finite 1000 0"
        "[Response True (Some ready_manifest)]"]
    by (simp add: INVALID_MANIFEST_MAX_RETRIES_def
          fetchManifestAndRetry_manifest [OF fetchManifest_ready]
          del: fetchManifestAndRetry.simps times_1_5.simps)
qed

section \<open>The ceiling of invalid manifests\<close>

lemma invalid_manifest_round:
  assumes "invalid_manifest m = Inr True"
  shows "fetchManifestAndRetry url waitForMS (Response True (Some m) # rest) counter =
       (if INVALID_MANIFEST_MAX_RETRIES < counter + 1 then
          (Rejected (Error (invalid_manifest_message url)), counter + 1,
           [Logged Info (LoadingManifestsFromDevServer url), Fetched url])
        else
          (case fetchManifestAndRetry url (times_1_5 waitForMS) rest (counter + 1) of
             (out, counter', evs) \<Rightarrow>
               (out, counter',
                [Logged Info (LoadingManifestsFromDevServer url), Fetched url,
                 Logged Warn (FailedToLoadEntrypointRetrying waitForMS), Waited waitForMS]
                @ evs)))"
proof (cases "INVALID_MANIFEST_MAX_RETRIES < counter + 1")
  case True
  with fetchManifest_invalid [OF assms, of url counter]
  have "fetchManifest url (Response True (Some m)) counter =
    (Inl (Error (invalid_manifest_message url)), counter + 1,
     [Logged Info (LoadingManifestsFromDevServer url), Fetched url])"
    by simp
  from fetchManifestAndRetry_throws [OF this] True show ?thesis by simp
next
  case False
  with fetchManifest_invalid [OF assms, of url counter]
  have "fetchManifest url (Response True (Some m)) counter =
    (Inr None, counter + 1, [Logged Info (LoadingManifestsFromDevServer url), Fetched url])"
    by simp
  from fetchManifestAndRetry_null [OF this] False show ?thesis
    by (simp split: prod.splits)
qed

text \<open>
  On a manifest for which the condition of lines 124-127 is true, the counter goes up
  by one; when it then exceeds \<open>INVALID_MANIFEST_MAX_RETRIES\<close> the retry loop rejects
  with the error of line 130 right after the fetch, with no wait and no further fetch,
  and otherwise it waits and goes on, its outcome being the one of the fetches that
  follow. So \<open>load\<close> on such a response rejects exactly when the counter exceeds the
  ceiling, and is still pending otherwise.
\<close>

lemma ceiling_exceeded_rejects:
  assumes "invalid_manifest m = Inr True"
  shows "fetchManifestAndRetry url waitForMS (Response True (Some m) # rest) counter =
       (if INVALID_MANIFEST_MAX_RETRIES < counter + 1 then
          (Rejected (Error (invalid_manifest_message url)), counter + 1,
           [Logged Info (LoadingManifestsFromDevServer url), Fetched url])
        else
          (case fetchManifestAndRetry url (times_1_5 waitForMS) rest (counter + 1) of
             (out, counter', evs) \<Rightarrow>
               (out, counter',
                [Logged Info (LoadingManifestsFromDevServer url), Fetched url,
                 Logged Warn (FailedToLoadEntrypointRetrying waitForMS), Waited waitForMS]
                @ evs)))
     \<and> (dev_server (options this) \<longrightarrow>
          fst (load this [Response True (Some m)]) =
            (if INVALID_MANIFEST_MAX_RETRIES < invalidManifestCounter this + 1
             then Rejected (Error (invalid_manifest_message
                    (the (fromWebpackDevServerURL (options this)) @ ''/'' @ manifestFilename this)))
             else Pending))"
  by (simp add: load_def Let_def invalid_manifest_round [OF assms]
           del: fetchManifestAndRetry.simps(2))

lemma ceiling_exceeded_rejects_sample:
  "invalid_manifest no_entrypoints_manifest = Inr True
   \<and> fst (load (dev_loader\<lparr>invalidManifestCounter := 9999\<rparr>)
            [Response True (Some no_entrypoints_manifest)]) =
       Rejected (Error (invalid_manifest_message ''http://127.0.0.1:8080/asset-manifest.json''))
   \<and> fst (load (dev_loader\<lparr>invalidManifestCounter := 9998\<rparr>)
            [Response True (Some no_entrypoints_manifest)]) = Pending"
proof -
  have h: "invalid_manifest no_entrypoints_manifest = Inr True" by (rule sample_checks)
  show ?thesis
    using h
      ceiling_exceeded_rejects [OF h, of "''u''" "Finite 1000 0" "[]" 0
        "dev_loader\<lparr>invalidManifestCounter := 9999\<rparr>"]
      ceiling_exceeded_rejects [OF h, of "''u''" "Finite 1000 0" "[]" 0
        "dev_loader\<lparr>invalidManifestCounter := 9998\<rparr>"]
    by (simp add: dev_loader_def dev_server_def INVALID_MANIFEST_MAX_RETRIES_def
             del: fetchManifestAndRetry.simps)
qed

text \<open>
  C4. Below the ceiling an invalid manifest is not to cause a rejection. The code keeps
  to that when the condition of lines 124-127 is true of the manifest (lemma
  \<open>ceiling_exceeded_rejects\<close>), but not on \<open>{"entrypoints": {"main": {}}}\<close>, whose first
  entrypoint has no \<open>assets\<close>: the condition reads \<open>js\<close> of \<open>undefined\<close>, so
  \<open>fetchManifest\<close> throws a TypeError, whatever the counter is, and leaves the counter as
  it was; with the counter at 0, far below the ceiling, \<open>load\<close> rejects on the first
  fetch.
\<close>

theorem missing_assets_rejects_below_ceiling:
  "fetchManifest url (Response True (Some no_assets_manifest)) counter =
     (Inl TypeError, counter, [Logged Info (LoadingManifestsFromDevServer url), Fetched url])
   \<and> fetchManifestAndRetry url waitForMS
        (Response True (Some no_assets_manifest) # rest) counter =
     (Rejected TypeError, counter, [Logged Info (LoadingManifestsFromDevServer url), Fetched url])
   \<and> invalidManifestCounter dev_loader + 1 \<le> INVALID_MANIFEST_MAX_RETRIES
   \<and> fst (load dev_loader [Response True (Some no_assets_manifest)]) = Rejected TypeError"
  by (simp add: fetchManifest_def invalid_manifest_def first_js_def member_def Object_keys_def
        first_key_def property_key_def and_then_def truthy_opt_def no_assets_manifest_def
        load_def dev_loader_def dev_server_def Let_def INVALID_MANIFEST_MAX_RETRIES_def)

section \<open>File mode\<close>

lemma new_ManifestLoader_file:
  assumes "\<not> dev_server opts" and "fst (new_ManifestLoader fs filename opts) = Inr this"
  shows "truthy_opt (fs (manifestFilepath filename))"
    and "this = \<lparr>manifestFilename = filename, manifest = fs (manifestFilepath filename),
                 entrypoints = Some (new_Entrypoints (the (fs (manifestFilepath filename)))),
                 options = opts, invalidManifestCounter = 0\<rparr>"
    and "snd (new_ManifestLoader fs filename opts) =
           [Logged Info (AttemptingToLoadManifest (manifestFilepath filename)),
            FileRead (manifestFilepath filename)]"
  using assms
  by (auto simp: new_ManifestLoader_def loadManifestFromFile_def Let_def truthy_opt_def
           split: option.splits if_splits)

lemma new_ManifestLoader_sample:
  "new_ManifestLoader sample_fs ''asset-manifest.json'' file_options =
     (Inr file_loader,
      [Logged Info (AttemptingToLoadManifest (manifestFilepath ''asset-manifest.json'')),
       FileRead (manifestFilepath ''asset-manifest.json'')])"
  by (simp add: new_ManifestLoader_def loadManifestFromFile_def Let_def truthy_opt_def
        sample_fs_def file_options_def file_loader_def dev_server_def ready_manifest_def
        new_Entrypoints_def normalise_def asset_group_def main_entry_def)

lemma file_options_not_dev: "\<not> dev_server file_options"
  by (simp add: file_options_def dev_server_def)

text \<open>
  C6. In file mode (no dev-server URL, or an empty one), once the constructor has
  succeeded, \<open>load\<close> resolves with the manifest that the constructor read from the file,
  does nothing to the outside (no file is read, nothing is fetched, its trace is
  empty), whatever the dev server would answer, and leaves the loader as it was, so
  every later call gives the same.
\<close>

theorem file_mode_load_is_cached:
  assumes "\<not> dev_server opts" and "fst (new_ManifestLoader fs filename opts) = Inr this"
  shows "manifest this = fs (manifestFilepath filename)
     \<and> load this responses = (Resolved (the (fs (manifestFilepath filename))), this, [])
     \<and> load (fst (snd (load this responses))) responses' = load this responses"
  using new_ManifestLoader_file(1) [OF assms] new_ManifestLoader_file(2) [OF assms] assms(1)
  by (simp add: load_def)

lemma sample_fs_read: "sample_fs (manifestFilepath ''asset-manifest.json'') = Some ready_manifest"
  by (simp add: sample_fs_def)

theorem file_mode_load_is_cached_witness:
  "\<not> dev_server file_options
   \<and> fst (new_ManifestLoader sample_fs ''asset-manifest.json'' file_options) = Inr file_loader
   \<and> load file_loader [Response True (Some empty_js_manifest)] = (Resolved ready_manifest, file_loader, [])
   \<and> load (fst (snd (load file_loader [Response True (Some empty_js_manifest)]))) [] =
       (Resolved ready_manifest, file_loader, [])"
proof -
  have h: "fst (new_ManifestLoader sample_fs ''asset-manifest.json'' file_options) = Inr file_loader"
    by (simp add: new_ManifestLoader_sample)
  note t = file_mode_load_is_cached [OF file_options_not_dev h,
      of "[Response True (Some empty_js_manifest)]" "[]", unfolded sample_fs_read option.sel]
  from t have a: "load file_loader [Response True (Some empty_js_manifest)] =
      (Resolved ready_manifest, file_loader, [])"
    by blast
  from t have "load (fst (snd (load file_loader [Response True (Some empty_js_manifest)]))) [] =
      load file_loader [Response True (Some empty_js_manifest)]"
    by blast
  then have b: "load (fst (snd (load file_loader [Response True (Some empty_js_manifest)]))) [] =
      (Resolved ready_manifest, file_loader, [])"
    using a by (rule trans)
  from file_options_not_dev h a b show ?thesis by blast
qed

lemma new_Entrypoints_names: "map fst (new_Entrypoints m) = entrypoint_names m"
  by (simp add: new_Entrypoints_def entrypoint_names_def split: option.splits prod.splits)

lemma Entrypoints_get_absent:
  "name \<notin> set (entrypoint_names m) \<Longrightarrow> Entrypoints_get (new_Entrypoints m) name = None"
  unfolding Entrypoints_get_def new_Entrypoints_names [symmetric]
  by (simp add: map_of_eq_None_iff)

text \<open>
  C7. In file mode, once the constructor has succeeded, \<open>createEntrypointLoader\<close> does
  not throw and returns an accessor that holds the entrypoint it looked up for the name
  in the index built from the file's manifest; calling the accessor resolves to that
  entrypoint whatever the loader and the dev server have become, with an empty trace;
  and for a name that is not among the manifest's entrypoints it holds \<open>null\<close>.
\<close>

theorem file_mode_entrypoint_loader:
  assumes "\<not> dev_server opts" and "fst (new_ManifestLoader fs filename opts) = Inr this"
  shows "createEntrypointLoader this name =
           Inr (FromCache (Entrypoints_get
                  (new_Entrypoints (the (fs (manifestFilepath filename)))) name))
     \<and> call_EntrypointLoader (FromCache entrypoint) this' responses =
           (Resolved entrypoint, this', [])
     \<and> (name \<notin> set (entrypoint_names (the (fs (manifestFilepath filename)))) \<longrightarrow>
           createEntrypointLoader this name = Inr (FromCache None))"
  using new_ManifestLoader_file(2) [OF assms] assms(1)
  by (simp add: createEntrypointLoader_def call_EntrypointLoader_def Entrypoints_get_absent)

theorem file_mode_entrypoint_loader_witness:
  "\<not> dev_server file_options
   \<and> fst (new_ManifestLoader sample_fs ''asset-manifest.json'' file_options) = Inr file_loader
   \<and> createEntrypointLoader file_loader ''main'' =
       Inr (FromCache (Some \<lparr>js = [main_js], css = []\<rparr>))
   \<and> ''stream'' \<notin> set (entrypoint_names ready_manifest)
   \<and> createEntrypointLoader file_loader ''stream'' = Inr (FromCache None)
   \<and> call_EntrypointLoader (FromCache None) dev_loader [Response False None] =
       (Resolved None, dev_loader, [])"
proof -
  have h: "fst (new_ManifestLoader sample_fs ''asset-manifest.json'' file_options) = Inr file_loader"
    by (simp add: new_ManifestLoader_sample)
  have n: "''stream'' \<notin> set (entrypoint_names ready_manifest)"
    by (simp add: entrypoint_names_def ready_manifest_def)
  have g: "Entrypoints_get (new_Entrypoints ready_manifest) ''main'' = Some \<lparr>js = [main_js], css = []\<rparr>"
    by (simp add: Entrypoints_get_def new_Entrypoints_def ready_manifest_def normalise_def
          asset_group_def main_entry_def)
  note t1 = file_mode_entrypoint_loader [OF file_options_not_dev h, of "''main''" None dev_loader
        "[Response False None]", unfolded sample_fs_read option.sel]
  note t2 = file_mode_entrypoint_loader [OF file_options_not_dev h, of "''stream''" None dev_loader
        "[Response False None]", unfolded sample_fs_read option.sel]
  from t1 g have a: "createEntrypointLoader file_loader ''main'' =
       Inr (FromCache (Some \<lparr>js = [main_js], css = []\<rparr>))"
    by simp
  from t2 n have b: "createEntrypointLoader file_loader ''stream'' = Inr (FromCache None)"
    by blast
  from t2 have c: "call_EntrypointLoader (FromCache None) dev_loader [Response False None] =
       (Resolved None, dev_loader, [])"
    by blast
  from file_options_not_dev h n a b c show ?thesis by blast
qed

section \<open>The dev-server bundle\<close>

text \<open>
  C8. With \<open>injectWebpackDevServerBundle\<close> set, in dev-server mode, when \<open>load\<close> resolves
  with a manifest in whose index the name is found, the accessor resolves to that
  entrypoint with \<open>{src: "webpack-dev-server.js", integrity: ""}\<close> appended as the last
  element of its \<open>js\<close> list (its \<open>css\<close> as it was); when the name is not found it
  resolves to \<open>null\<close>. In file mode the accessor resolves to the entrypoint of the
  cached index as it is, whether the option is set or not.
\<close>

theorem dev_bundle_injected:
  "(dev_server (options this) \<and> injectWebpackDevServerBundle (options this)
      \<and> load this responses = (Resolved m, this', evs) \<longrightarrow>
      createEntrypointLoader this name = Inr (FromDevServer name)
      \<and> (\<forall>entrypoint. Entrypoints_get (new_Entrypoints m) name = Some entrypoint \<longrightarrow>
            call_EntrypointLoader (FromDevServer name) this responses =
              (Resolved (Some (entrypoint\<lparr>js := js entrypoint @
                 [Asset_json \<lparr>src = ''webpack-dev-server.js'', integrity = []\<rparr>]\<rparr>)),
               this', evs))
      \<and> (Entrypoints_get (new_Entrypoints m) name = None \<longrightarrow>
            call_EntrypointLoader (FromDevServer name) this responses =
              (Resolved None, this', evs)))
   \<and> (\<not> dev_server (options this) \<and> entrypoints this = Some index \<longrightarrow>
      createEntrypointLoader this name = Inr (FromCache (Entrypoints_get index name))
      \<and> call_EntrypointLoader (FromCache (Entrypoints_get index name)) this responses =
          (Resolved (Entrypoints_get index name), this, []))"
  by (simp add: createEntrypointLoader_def call_EntrypointLoader_def
        webpack_dev_server_bundle_def)

lemma load_dev_ready:
  "load dev_loader [Response True (Some ready_manifest)] =
     (Resolved ready_manifest, dev_loader,
      [Logged Info (LoadingManifestsFromDevServer ''http://127.0.0.1:8080/asset-manifest.json''),
       Fetched ''http://127.0.0.1:8080/asset-manifest.json''])"
  by (simp add: load_def Let_def dev_loader_def dev_server_def
        fetchManifestAndRetry_manifest [OF fetchManifest_ready]
        del: fetchManifestAndRetry.simps)

lemma get_main_ready:
  "Entrypoints_get (new_Entrypoints ready_manifest) ''main'' = Some \<lparr>js = [main_js], css = []\<rparr>"
  by (simp add: Entrypoints_get_def new_Entrypoints_def ready_manifest_def normalise_def
        asset_group_def main_entry_def)

lemma get_stream_ready:
  "Entrypoints_get (new_Entrypoints ready_manifest) ''stream'' = None"
  by (simp add: Entrypoints_get_def new_Entrypoints_def ready_manifest_def normalise_def
        asset_group_def main_entry_def)

theorem dev_bundle_injected_witness:
  "call_EntrypointLoader (FromDevServer ''main'') dev_loader [Response True (Some ready_manifest)] =
     (Resolved (Some \<lparr>js = [main_js, Asset_json \<lparr>src = ''webpack-dev-server.js'', integrity = []\<rparr>],
                      css = []\<rparr>),
      dev_loader,
      [Logged Info (LoadingManifestsFromDevServer ''http://127.0.0.1:8080/asset-manifest.json''),
       Fetched ''http://127.0.0.1:8080/asset-manifest.json''])
   \<and> call_EntrypointLoader (FromDevServer ''stream'') dev_loader [Response True (Some ready_manifest)] =
     (Resolved None, dev_loader,
      [Logged Info (LoadingManifestsFromDevServer ''http://127.0.0.1:8080/asset-manifest.json''),
       Fetched ''http://127.0.0.1:8080/asset-manifest.json''])
   \<and> injectWebpackDevServerBundle (options file_loader)
   \<and> createEntrypointLoader file_loader ''main'' =
       Inr (FromCache (Some \<lparr>js = [main_js], css = []\<rparr>))
   \<and> call_EntrypointLoader (FromCache (Some \<lparr>js = [main_js], css = []\<rparr>)) file_loader [] =
       (Resolved (Some \<lparr>js = [main_js], css = []\<rparr>), file_loader, [])"
proof -
  have d: "dev_server (options dev_loader) \<and> injectWebpackDevServerBundle (options dev_loader)"
    by (simp add: dev_loader_def dev_server_def)
  have f: "\<not> dev_server (options file_loader)
      \<and> entrypoints file_loader = Some [(''main'', \<lparr>js = [main_js], css = []\<rparr>)]"
    by (simp add: file_loader_def file_options_def dev_server_def)
  have i: "injectWebpackDevServerBundle (options file_loader)"
    by (simp add: file_loader_def file_options_def)
  have g: "Entrypoints_get [(''main'', \<lparr>js = [main_js], css = []\<rparr>)] ''main''
             = Some \<lparr>js = [main_js], css = []\<rparr>"
    by (simp add: Entrypoints_get_def)
  note t1 = dev_bundle_injected [of dev_loader "[Response True (Some ready_manifest)]"
      ready_manifest dev_loader _ "''main''"]
  note t2 = dev_bundle_injected [of dev_loader "[Response True (Some ready_manifest)]"
      ready_manifest dev_loader _ "''stream''"]
  note t3 = dev_bundle_injected [of file_loader "[]" _ _ _ "''main''"
      "[(''main'', \<lparr>js = [main_js], css = []\<rparr>)]"]
  from t1 d load_dev_ready get_main_ready
  have a: "call_EntrypointLoader (FromDevServer ''main'') dev_loader [Response True (Some ready_manifest)] =
     (Resolved (Some \<lparr>js = [main_js, Asset_json \<lparr>src = ''webpack-dev-server.js'', integrity = []\<rparr>],
                      css = []\<rparr>),
      dev_loader,
      [Logged Info (LoadingManifestsFromDevServer ''http://127.0.0.1:8080/asset-manifest.json''),
       Fetched ''http://127.0.0.1:8080/asset-manifest.json''])"
    by simp
  from t2 d load_dev_ready get_stream_ready
  have b: "call_EntrypointLoader (FromDevServer ''stream'') dev_loader [Response True (Some ready_manifest)] =
     (Resolved None, dev_loader,
      [Logged Info (LoadingManifestsFromDevServer ''http://127.0.0.1:8080/asset-manifest.json''),
       Fetched ''http://127.0.0.1:8080/asset-manifest.json''])"
    by simp
  from t3 f g
  have c: "createEntrypointLoader file_loader ''main'' =
       Inr (FromCache (Some \<lparr>js = [main_js], css = []\<rparr>))
     \<and> call_EntrypointLoader (FromCache (Some \<lparr>js = [main_js], css = []\<rparr>)) file_loader [] =
       (Resolved (Some \<lparr>js = [main_js], css = []\<rparr>), file_loader, [])"
    by simp
  from a b c i show ?thesis by blast
qed

section \<open>The counter\<close>

text \<open>What one fetch does to the counter.\<close>

lemma counter_step:
  "fst (snd (fetchManifest url res counter)) =
     (if passed_check res then 0 else if rejected_by_check res then counter + 1 else counter)"
proof (cases res)
  case FetchRejected
  then show ?thesis by (simp add: fetchManifest_def)
next
  case (Response ok body)
  show ?thesis
  proof (cases "ok \<and> body \<noteq> None")
    case False
    with Response show ?thesis
      by (cases ok; cases body) (simp_all add: fetchManifest_def)
  next
    case True
    then obtain m where "res = Response True (Some m)" using Response by auto
    then show ?thesis
      by (cases "invalid_manifest m")
         (auto simp: fetchManifest_def Let_def split: sum.splits bool.splits)
  qed
qed

text \<open>
  The manifests rejected since the last one that passed: the responses from the end of
  the history back to the last that passed, those rejected by the check counted.
\<close>

lemma counter_after_append:
  "counter_after url (rs @ [res]) counter =
     fst (snd (fetchManifest url res (counter_after url rs counter)))"
  by (induction rs arbitrary: counter) simp_all

lemma counter_after_eq:
  "counter_after url rs counter =
     length (filter rejected_by_check (takeWhile (\<lambda>res. \<not> passed_check res) (rev rs)))
     + (if \<exists>res \<in> set rs. passed_check res then 0 else counter)"
proof (induction rs rule: rev_induct)
  case Nil
  show ?case by simp
next
  case (snoc res rs)
  show ?case
    unfolding counter_after_append counter_step
    using snoc by auto
qed

lemma throws_invalid_iff:
  "fst (fetchManifest url res counter) = Inl (Error msg) \<longleftrightarrow>
     rejected_by_check res \<and> INVALID_MANIFEST_MAX_RETRIES < counter + 1
     \<and> msg = invalid_manifest_message url"
proof (cases res)
  case FetchRejected
  then show ?thesis by (simp add: fetchManifest_def)
next
  case (Response ok body)
  show ?thesis
  proof (cases "ok \<and> body \<noteq> None")
    case False
    with Response show ?thesis
      by (cases ok; cases body) (simp_all add: fetchManifest_def)
  next
    case True
    then obtain m where r: "res = Response True (Some m)" using Response by auto
    have nr: "\<And>e. not_ready m \<noteq> Inl (Error e)"
      by (auto simp: not_ready_def firstEntrypoint_def and_then_def member_def Object_keys_def
            split: sum.splits option.splits json.splits if_splits)
    have iv: "\<And>e. invalid_manifest m \<noteq> Inl (Error e)"
      by (auto simp: invalid_manifest_def first_js_def and_then_def member_def Object_keys_def
            split: sum.splits option.splits json.splits if_splits)
    show ?thesis
      using r nr iv
      by (cases "invalid_manifest m"; cases "not_ready m")
         (auto simp: fetchManifest_def Let_def split: sum.splits bool.splits)
  qed
qed


lemma rejected_not_passed: "rejected_by_check res \<Longrightarrow> \<not> passed_check res"
  by (induction res rule: rejected_by_check.induct) simp_all

lemma counter_after_replicate_rejected:
  "rejected_by_check res \<Longrightarrow> counter_after url (replicate n res) counter = counter + n"
  by (induction n arbitrary: counter) (auto simp: counter_step dest: rejected_not_passed)

text \<open>
  C9. The counter counts consecutive failures. A fetch whose manifest passes the check
  of lines 124-127 sets the counter to 0, whatever it was. Hence, for a loader whose
  counter started at 0, when \<open>fetchManifest\<close> throws the error of line 130 on a response,
  that response was rejected by the check, and so were at least
  \<open>INVALID_MANIFEST_MAX_RETRIES\<close> of the responses before it that came after the last
  manifest that passed: more than the ceiling in a run that no valid manifest breaks.
\<close>

theorem counter_counts_consecutive_invalid:
  "(passed_check res \<longrightarrow> fst (snd (fetchManifest url res counter)) = 0)
   \<and> (fst (fetchManifest url res (counter_after url rs 0)) = Inl (Error msg) \<longrightarrow>
        rejected_by_check res
        \<and> INVALID_MANIFEST_MAX_RETRIES
            \<le> length (filter rejected_by_check
                        (takeWhile (\<lambda>res. \<not> passed_check res) (rev rs))))"
proof (intro conjI impI)
  assume "passed_check res"
  then show "fst (snd (fetchManifest url res counter)) = 0" by (simp add: counter_step)
next
  assume t: "fst (fetchManifest url res (counter_after url rs 0)) = Inl (Error msg)"
  then show "rejected_by_check res" by (simp add: throws_invalid_iff)
  from t have "INVALID_MANIFEST_MAX_RETRIES < counter_after url rs 0 + 1"
    by (simp add: throws_invalid_iff)
  then show "INVALID_MANIFEST_MAX_RETRIES
            \<le> length (filter rejected_by_check
                        (takeWhile (\<lambda>res. \<not> passed_check res) (rev rs)))"
    by (simp add: counter_after_eq [of url rs 0])
qed

theorem counter_counts_consecutive_invalid_witness:
  "passed_check (Response True (Some ready_manifest))
   \<and> fst (snd (fetchManifest ''u'' (Response True (Some ready_manifest)) 7)) = 0
   \<and> fst (fetchManifest ''u'' (Response True (Some no_entrypoints_manifest))
          (counter_after ''u'' (replicate 9999 (Response True (Some no_entrypoints_manifest))) 0))
       = Inl (Error (invalid_manifest_message ''u''))
   \<and> INVALID_MANIFEST_MAX_RETRIES
       \<le> length (filter rejected_by_check
            (takeWhile (\<lambda>res. \<not> passed_check res)
               (rev (replicate 9999 (Response True (Some no_entrypoints_manifest))))))"
proof -
  let ?bad = "Response True (Some no_entrypoints_manifest)"
  have p: "passed_check (Response True (Some ready_manifest))"
    by (simp add: sample_checks)
  have r: "rejected_by_check ?bad" by (simp add: sample_checks)
  have c: "counter_after ''u'' (replicate 9999 ?bad) 0 = 9999"
    using counter_after_replicate_rejected [OF r, of "''u''" 9999 0] by simp
  have t: "fst (fetchManifest ''u'' ?bad (counter_after ''u'' (replicate 9999 ?bad) 0))
       = Inl (Error (invalid_manifest_message ''u''))"
    unfolding c
    by (simp add: fetchManifest_invalid [OF sample_checks(3)] INVALID_MANIFEST_MAX_RETRIES_def)
  note th = counter_counts_consecutive_invalid [of "Response True (Some ready_manifest)" "''u''" 7]
  from th p have a: "fst (snd (fetchManifest ''u'' (Response True (Some ready_manifest)) 7)) = 0"
    by blast
  note th2 = counter_counts_consecutive_invalid [of ?bad "''u''" 0
      "replicate 9999 ?bad" "invalid_manifest_message ''u''"]
  from th2 t have b: "INVALID_MANIFEST_MAX_RETRIES
       \<le> length (filter rejected_by_check
            (takeWhile (\<lambda>res. \<not> passed_check res) (rev (replicate 9999 ?bad))))"
    by blast
  from p a t b show ?thesis by blast
qed

section \<open>The delays\<close>

lemma waits_append: "waits (xs @ ys) = waits xs @ waits ys"
  by (induction xs rule: waits.induct) simp_all

lemma fetches_append: "fetches (xs @ ys) = fetches xs + fetches ys"
  by (induction xs rule: fetches.induct) simp_all

lemma fetchManifest_trace:
  "waits (snd (snd (fetchManifest url res counter))) = []
   \<and> fetches (snd (snd (fetchManifest url res counter))) = 1"
  by (auto simp: fetchManifest_def Let_def
        split: fetched.splits option.splits sum.splits bool.splits)

lemma retry_waits:
  "k < length (waits (snd (snd (fetchManifestAndRetry url waitForMS rs counter)))) \<Longrightarrow>
     waits (snd (snd (fetchManifestAndRetry url waitForMS rs counter))) ! k =
       (times_1_5 ^^ k) waitForMS"
proof (induction rs arbitrary: waitForMS counter k)
  case Nil
  then show ?case by simp
next
  case (Cons res rest)
  obtain r c evs where f: "fetchManifest url res counter = (r, c, evs)"
    by (metis prod.collapse)
  from fetchManifest_trace [of url res counter] f have w: "waits evs = []" by simp
  show ?case
  proof (cases r)
    case (Inl e)
    with f w Cons.prems show ?thesis by simp
  next
    case (Inr v)
    show ?thesis
    proof (cases "truthy_opt v")
      case True
      with f w Inr Cons.prems show ?thesis by simp
    next
      case False
      obtain out c' evs' where g:
        "fetchManifestAndRetry url (times_1_5 waitForMS) rest c = (out, c', evs')"
        by (metis prod.collapse)
      have ws: "waits (snd (snd (fetchManifestAndRetry url waitForMS (res # rest) counter)))
          = waitForMS # waits evs'"
        using f Inr False g w by (simp add: waits_append)
      show ?thesis
      proof (cases k)
        case 0
        with ws show ?thesis by simp
      next
        case (Suc j)
        with Cons.prems ws have "j < length (waits evs')" by simp
        with Cons.IH [of j "times_1_5 waitForMS" c] g
        have "waits evs' ! j = (times_1_5 ^^ j) (times_1_5 waitForMS)" by simp
        with ws Suc show ?thesis by (simp add: funpow_swap1)
      qed
    qed
  qed
qed

lemma exact_delays:
  "map (\<lambda>k. double_value ((times_1_5 ^^ k) (Finite 1000 0))) [0..<30] =
   map (\<lambda>k. Some (1000 * (3 / 2) ^ k)) [0..<30]"
  by code_simp


lemma exact_delay:
  assumes "k < 30"
  shows "double_value ((times_1_5 ^^ k) (Finite 1000 0)) = Some (1000 * (3 / 2) ^ k)"
proof -
  have "map (\<lambda>k. double_value ((times_1_5 ^^ k) (Finite 1000 0))) [0..<30] ! k =
        map (\<lambda>k. Some (1000 * (3 / 2) ^ k)) [0..<30] ! k"
    by (simp only: exact_delays)
  with assms show ?thesis by simp
qed

lemma second_delay: "times_1_5 (Finite 1000 0) = Finite 3000 (- 1)"
  by code_simp

lemma first_delays:
  "double_value (Finite 1000 0) = Some 1000" "double_value (Finite 3000 (- 1)) = Some 1500"
  by simp_all

lemma fetchManifest_valid:
  assumes "invalid_manifest m = Inr False" and "not_ready m = Inr False"
  shows "fetchManifest url (Response True (Some m)) counter =
     (Inr (Some m), 0, [Logged Info (LoadingManifestsFromDevServer url), Fetched url])"
  using assms by (simp add: fetchManifest_def)

lemma retry_not_ok_fetches:
  "fetches (snd (snd (fetchManifestAndRetry url waitForMS (replicate n (Response False body)) counter)))
     = n"
proof (induction n arbitrary: waitForMS)
  case 0
  show ?case by simp
next
  case (Suc n)
  show ?case
    using Suc.IH [of "times_1_5 waitForMS"]
    by (auto simp add: fetchManifestAndRetry_null [OF fetchManifest_not_ok] fetches_append
             simp del: fetchManifestAndRetry.simps split: prod.splits)
qed

text \<open>
  C3, as stated, fails at the 31st retry: \<open>1000 * 1.5 ^ 30\<close> is \<open>125 * 3 ^ 30 / 2 ^ 27\<close>,
  whose numerator is odd and has 55 bits, so it is no binary64 number; after 31
  responses that are not ok the last wait is \<open>6434097877957781 / 2 ^ 25\<close> milliseconds.
\<close>

theorem delay_of_retry_31_is_rounded:
  "map double_value (waits (snd (snd (load dev_loader (replicate 31 (Response False None)))))) ! 30
     = Some (6434097877957781 / 33554432)
   \<and> (6434097877957781 / 33554432 :: rat) \<noteq> 1000 * (3 / 2) ^ 30"
  by code_simp


lemma load_dev:
  assumes "dev_server (options this)"
  shows "load this responses =
     (case fetchManifestAndRetry
             (the (fromWebpackDevServerURL (options this)) @ ''/'' @ manifestFilename this)
             (Finite 1000 0) responses (invalidManifestCounter this) of
        (out, counter, evs) \<Rightarrow> (out, this\<lparr>invalidManifestCounter := counter\<rparr>, evs))"
  using assms by (simp add: load_def)

lemma load_dev_trace:
  assumes "dev_server (options this)"
  shows "snd (snd (load this responses)) =
     snd (snd (fetchManifestAndRetry
             (the (fromWebpackDevServerURL (options this)) @ ''/'' @ manifestFilename this)
             (Finite 1000 0) responses (invalidManifestCounter this)))"
  by (simp add: load_dev [OF assms] split: prod.splits)

lemma load_dev_outcome:
  assumes "dev_server (options this)"
  shows "fst (load this responses) =
     fst (fetchManifestAndRetry
             (the (fromWebpackDevServerURL (options this)) @ ''/'' @ manifestFilename this)
             (Finite 1000 0) responses (invalidManifestCounter this))"
  by (simp add: load_dev [OF assms] split: prod.splits)

lemma two_invalid_then_valid:
  assumes "invalid_manifest m1 = Inr True" and "invalid_manifest m2 = Inr True"
    and "counter + 2 \<le> INVALID_MANIFEST_MAX_RETRIES"
    and "invalid_manifest m = Inr False" and "not_ready m = Inr False"
  shows "fetchManifestAndRetry url (Finite 1000 0)
           [Response True (Some m1), Response True (Some m2), Response True (Some m)] counter =
     (Resolved m, 0,
      [Logged Info (LoadingManifestsFromDevServer url), Fetched url,
       Logged Warn (FailedToLoadEntrypointRetrying (Finite 1000 0)), Waited (Finite 1000 0),
       Logged Info (LoadingManifestsFromDevServer url), Fetched url,
       Logged Warn (FailedToLoadEntrypointRetrying (Finite 3000 (- 1))), Waited (Finite 3000 (- 1)),
       Logged Info (LoadingManifestsFromDevServer url), Fetched url])"
  using assms(3)
  by (simp add: invalid_manifest_round [OF assms(1)] invalid_manifest_round [OF assms(2)]
        fetchManifestAndRetry_manifest [OF fetchManifest_valid [OF assms(4,5)]] second_delay
        del: fetchManifestAndRetry.simps times_1_5.simps)

text \<open>
  C3, amended. In dev-server mode, within one \<open>load\<close>: the delay before the n-th retry
  is \<open>1000 * 1.5 ^ (n - 1)\<close> milliseconds for n up to 30, where the binary64 product is
  still exact (from the 31st on each product is rounded to the nearest binary64
  number); on two invalid manifests below the ceiling followed by a valid one,
  \<open>load\<close> fetches exactly three times, waits 1000 and then 1500 milliseconds, and
  resolves with the valid manifest; and no number of attempts ends the loop: after any
  n responses that are not ok it has fetched n times and is still pending.
\<close>

theorem backoff_delays:
  assumes "dev_server (options this)"
  shows "(1 \<le> n \<and> n \<le> 30 \<and> n \<le> length (waits (snd (snd (load this responses)))) \<longrightarrow>
            double_value (waits (snd (snd (load this responses))) ! (n - 1))
              = Some (1000 * (3 / 2) ^ (n - 1)))
     \<and> (invalid_manifest m1 = Inr True \<and> invalid_manifest m2 = Inr True
          \<and> invalidManifestCounter this + 2 \<le> INVALID_MANIFEST_MAX_RETRIES
          \<and> invalid_manifest m = Inr False \<and> not_ready m = Inr False \<longrightarrow>
          fst (load this [Response True (Some m1), Response True (Some m2), Response True (Some m)])
            = Resolved m
          \<and> fetches (snd (snd (load this
                [Response True (Some m1), Response True (Some m2), Response True (Some m)]))) = 3
          \<and> map double_value (waits (snd (snd (load this
                [Response True (Some m1), Response True (Some m2), Response True (Some m)]))))
              = [Some 1000, Some 1500])
     \<and> fst (load this (replicate n (Response False body))) = Pending
     \<and> fetches (snd (snd (load this (replicate n (Response False body))))) = n"
proof (intro conjI impI)
  let ?ws = "waits (snd (snd (load this responses)))"
  assume n: "1 \<le> n \<and> n \<le> 30 \<and> n \<le> length ?ws"
  then have k: "n - 1 < length ?ws" and b: "n - 1 < 30" by auto
  from k have "?ws ! (n - 1) = (times_1_5 ^^ (n - 1)) (Finite 1000 0)"
    unfolding load_dev_trace [OF assms] by (rule retry_waits)
  with exact_delay [OF b]
  show "double_value (?ws ! (n - 1)) = Some (1000 * (3 / 2) ^ (n - 1))" by simp
next
  let ?rs = "[Response True (Some m1), Response True (Some m2), Response True (Some m)]"
  assume h: "invalid_manifest m1 = Inr True \<and> invalid_manifest m2 = Inr True
          \<and> invalidManifestCounter this + 2 \<le> INVALID_MANIFEST_MAX_RETRIES
          \<and> invalid_manifest m = Inr False \<and> not_ready m = Inr False"
  note t = two_invalid_then_valid [of m1 m2 "invalidManifestCounter this" m
      "the (fromWebpackDevServerURL (options this)) @ ''/'' @ manifestFilename this"]
  from h t show "fst (load this ?rs) = Resolved m"
    by (simp add: load_dev_outcome [OF assms] del: fetchManifestAndRetry.simps)
  from h t show "fetches (snd (snd (load this ?rs))) = 3"
    by (simp add: load_dev_trace [OF assms] del: fetchManifestAndRetry.simps)
  from h t show "map double_value (waits (snd (snd (load this ?rs)))) = [Some 1000, Some 1500]"
    by (simp add: load_dev_trace [OF assms] del: fetchManifestAndRetry.simps)
next
  show "fst (load this (replicate n (Response False body))) = Pending"
    by (simp add: load_dev_outcome [OF assms] retry_not_ok_replicate)
next
  show "fetches (snd (snd (load this (replicate n (Response False body))))) = n"
    by (simp add: load_dev_trace [OF assms] retry_not_ok_fetches)
qed

theorem backoff_delays_witness:
  "dev_server (options dev_loader)
   \<and> fst (load dev_loader [Response True (Some no_entrypoints_manifest),
            Response True (Some no_js_manifest), Response True (Some ready_manifest)])
       = Resolved ready_manifest
   \<and> fetches (snd (snd (load dev_loader [Response True (Some no_entrypoints_manifest),
            Response True (Some no_js_manifest), Response True (Some ready_manifest)]))) = 3
   \<and> map double_value (waits (snd (snd (load dev_loader
           [Response True (Some no_entrypoints_manifest),
            Response True (Some no_js_manifest), Response True (Some ready_manifest)]))))
       = [Some 1000, Some 1500]
   \<and> double_value (waits (snd (snd (load dev_loader (replicate 4 (Response False None))))) ! 2)
       = Some 2250
   \<and> fst (load dev_loader (replicate 4 (Response False None))) = Pending
   \<and> fetches (snd (snd (load dev_loader (replicate 4 (Response False None))))) = 4"
proof -
  have d: "dev_server (options dev_loader)" by (simp add: dev_loader_def dev_server_def)
  have c: "invalidManifestCounter dev_loader + 2 \<le> INVALID_MANIFEST_MAX_RETRIES"
    by (simp add: dev_loader_def INVALID_MANIFEST_MAX_RETRIES_def)
  have l: "3 \<le> length (waits (snd (snd (load dev_loader (replicate 4 (Response False None))))))"
    by code_simp
  note t = backoff_delays [OF d, of 3 "replicate 4 (Response False None)"
      no_entrypoints_manifest no_js_manifest ready_manifest None]
  note u = backoff_delays [OF d, of 4 "[]"
      no_entrypoints_manifest no_js_manifest ready_manifest None]
  from t l have a: "double_value
      (waits (snd (snd (load dev_loader (replicate 4 (Response False None))))) ! 2) = Some 2250"
    by (simp add: power_divide)
  from t c sample_checks
  have b: "fst (load dev_loader [Response True (Some no_entrypoints_manifest),
            Response True (Some no_js_manifest), Response True (Some ready_manifest)])
       = Resolved ready_manifest
   \<and> fetches (snd (snd (load dev_loader [Response True (Some no_entrypoints_manifest),
            Response True (Some no_js_manifest), Response True (Some ready_manifest)]))) = 3
   \<and> map double_value (waits (snd (snd (load dev_loader
           [Response True (Some no_entrypoints_manifest),
            Response True (Some no_js_manifest), Response True (Some ready_manifest)]))))
       = [Some 1000, Some 1500]"
    by blast
  from u have e: "fst (load dev_loader (replicate 4 (Response False None))) = Pending
     \<and> fetches (snd (snd (load dev_loader (replicate 4 (Response False None))))) = 4"
    by blast
  from d a b e show ?thesis by blast
qed

end
